theory Spec2Isabelle
  imports Main "HOL-Library.Sublist"
begin

section \<open>The cassandra\_verify module: building and reporting a nodetool verify run\<close>

text \<open>
  The development follows \<^verbatim>\<open>plugins/modules/cassandra_verify.py\<close>. A parameter that
  may be \<^verbatim>\<open>None\<close> is an \<^typ>\<open>'a option\<close>; the two collaborators that live outside the
  module, \<^verbatim>\<open>socket.getfqdn()\<close> and the framework's \<^verbatim>\<open>module.run_command\<close>, are
  parameters (\<open>fqdn\<close> and \<open>run\<close>) of the functions that call them.

  A Python \<^verbatim>\<open>str\<close> is a sequence of Unicode code points. The command builder only
  concatenates strings and compares them with ASCII characters, which reads the same
  on the UTF-8 bytes of a string, so the strings of the command line are of type
  \<^typ>\<open>string\<close>. \<^verbatim>\<open>str.strip()\<close> depends on the class of every character, so the two
  captured streams are lists of code points (\<open>codepoints\<close>).
\<close>

subsection \<open>Python values and built-ins the module relies on\<close>

text \<open>
  The \<^verbatim>\<open>table\<close> parameter has type \<^verbatim>\<open>raw\<close>: the framework passes the YAML value
  through unchanged, so it may be a string, a list of arbitrary values, or something
  else (a number, a mapping, ...), which \<open>ROther\<close> stands for.
\<close>

datatype raw = RStr string | RList "raw list" | ROther

datatype error = TypeError

type_synonym codepoints = "nat list"

text \<open>
  The values of the result dictionary. A \<^verbatim>\<open>str\<close> value is \<open>VStr\<close> when the module
  writes it as a literal and \<open>VText\<close> when it is a captured stream, given by its code
  points.
\<close>

datatype jval = VBool bool | VStr string | VText codepoints | VInt int

type_synonym result = "string \<rightharpoonup> jval"

type_synonym runner = "string \<Rightarrow> int \<times> codepoints \<times> codepoints"

text \<open>\<^verbatim>\<open>str(n)\<close> for an integer: decimal digits, with a minus sign when negative.\<close>

definition digit_char :: "nat \<Rightarrow> char" where
  "digit_char d = ''0123456789'' ! d"

fun str_nat :: "nat \<Rightarrow> string" where
  "str_nat n = (if n < 10 then [digit_char n] else str_nat (n div 10) @ [digit_char (n mod 10)])"

declare str_nat.simps [simp del]

definition str_int :: "int \<Rightarrow> string" where
  "str_int i = (if i < 0 then CHR ''-'' # str_nat (nat (- i)) else str_nat (nat i))"

text \<open>\<^verbatim>\<open>"{0}".format(x)\<close> for a value that is a string or \<^verbatim>\<open>None\<close>.\<close>

definition format_opt :: "string option \<Rightarrow> string" where
  "format_opt x = (case x of None \<Rightarrow> ''None'' | Some s \<Rightarrow> s)"

text \<open>\<^verbatim>\<open>s.endswith(t)\<close>.\<close>

definition endswith :: "string \<Rightarrow> string \<Rightarrow> bool" where
  "endswith s t = suffix t s"

text \<open>
  \<^verbatim>\<open>sep.join(xs)\<close>: raises \<^verbatim>\<open>TypeError\<close> when an item of the list is not a string,
  otherwise puts \<open>sep\<close> between consecutive items.
\<close>

fun all_strs :: "raw list \<Rightarrow> string list option" where
  "all_strs [] = Some []"
| "all_strs (RStr s # xs) = (case all_strs xs of None \<Rightarrow> None | Some ss \<Rightarrow> Some (s # ss))"
| "all_strs (_ # xs) = None"

fun str_join :: "string \<Rightarrow> string list \<Rightarrow> string" where
  "str_join sep [] = []"
| "str_join sep [x] = x"
| "str_join sep (x # y # ys) = x @ sep @ str_join sep (y # ys)"

definition py_join :: "string \<Rightarrow> raw list \<Rightarrow> error + string" where
  "py_join sep xs = (case all_strs xs of None \<Rightarrow> Inl TypeError | Some ss \<Rightarrow> Inr (str_join sep ss))"

text \<open>
  \<^verbatim>\<open>s.strip()\<close>: drops the whitespace at both ends. The whitespace characters are all
  the code points Python 3 counts as whitespace (\<^verbatim>\<open>str.isspace\<close>): the ASCII ones, 9 to 13
  and 28 to 32, and U+0085, U+00A0, U+1680, U+2000 to U+200A, U+2028, U+2029, U+202F,
  U+205F and U+3000.
\<close>

definition isspace :: "nat \<Rightarrow> bool" where
  "isspace n =
     ((9 \<le> n \<and> n \<le> 13) \<or> (28 \<le> n \<and> n \<le> 32) \<or> n = 0x85 \<or> n = 0xA0 \<or> n = 0x1680
      \<or> (0x2000 \<le> n \<and> n \<le> 0x200A) \<or> n = 0x2028 \<or> n = 0x2029 \<or> n = 0x202F
      \<or> n = 0x205F \<or> n = 0x3000)"

definition str_strip :: "codepoints \<Rightarrow> codepoints" where
  "str_strip s = rev (dropWhile isspace (rev (dropWhile isspace s)))"

subsection \<open>Module parameters and the command objects\<close>

text \<open>The \<^verbatim>\<open>argument_spec\<close> of \<^verbatim>\<open>main\<close>, after the framework has applied the defaults.\<close>

record params =
  p_host :: "string option"
  p_port :: int
  p_password :: "string option"
  p_password_file :: "string option"
  p_username :: "string option"
  p_keyspace :: "string option"
  p_table :: "raw option"
  p_extended :: bool
  p_nodetool_path :: "string option"

record NodeToolCmd =
  host :: string
  port :: int
  password :: "string option"
  password_file :: "string option"
  username :: "string option"
  nodetool_path :: "string option"

record NodeToolCommand = NodeToolCmd +
  keyspace :: "string option"
  table :: "raw option"
  extended :: bool
  cmd :: string

text \<open>\<^verbatim>\<open>NodeToolCmd.__init__\<close>: an unset host becomes the local fully-qualified name.\<close>

definition NodeToolCmd_init :: "string \<Rightarrow> params \<Rightarrow> NodeToolCmd" where
  "NodeToolCmd_init fqdn p =
     \<lparr> host = (case p_host p of None \<Rightarrow> fqdn | Some h \<Rightarrow> h),
       port = p_port p,
       password = p_password p,
       password_file = p_password_file p,
       username = p_username p,
       nodetool_path = p_nodetool_path p \<rparr>"

subsection \<open>\<^verbatim>\<open>NodeToolCmd.nodetool_cmd\<close>\<close>

text \<open>
  The first statement rewrites \<^verbatim>\<open>self.nodetool_path\<close>: a separator is appended when the
  path is set, non-empty and does not end in one; in every other case the \<^verbatim>\<open>else\<close>
  branch stores the empty string.
\<close>

definition normalized_path :: "string option \<Rightarrow> string" where
  "normalized_path np =
     (case np of
        None \<Rightarrow> ''''
      | Some d \<Rightarrow> (if length d > 0 \<and> \<not> endswith d ''/'' then d @ ''/'' else ''''))"

text \<open>
  The credential flags, appended only when a username is set. \<open>CHR 0x27\<close> is the
  single quote of the format string \<^verbatim>\<open>" --password '{0}'"\<close>.
\<close>

definition with_credentials :: "'a NodeToolCmd_scheme \<Rightarrow> string \<Rightarrow> string" where
  "with_credentials s c =
     (case username s of
        None \<Rightarrow> c
      | Some u \<Rightarrow>
          (let c1 = c @ '' --username '' @ u in
           case password_file s of
             Some pf \<Rightarrow> c1 @ '' --password-file '' @ pf
           | None \<Rightarrow> c1 @ '' --password '' @ [CHR 0x27] @ format_opt (password s) @ [CHR 0x27]))"

text \<open>The string handed to \<^verbatim>\<open>execute_command\<close>.\<close>

definition rendered_cmd :: "'a NodeToolCmd_scheme \<Rightarrow> string \<Rightarrow> string" where
  "rendered_cmd s sub_command =
     with_credentials s
       (normalized_path (nodetool_path s) @ ''nodetool --host '' @ host s
          @ '' --port '' @ str_int (port s))
     @ '' '' @ sub_command"

text \<open>
  The method itself: the object keeps the rewritten path, and the result is what the
  process runner returns for the rendered command.
\<close>

definition nodetool_cmd ::
  "runner \<Rightarrow> 'a NodeToolCmd_scheme \<Rightarrow> string
     \<Rightarrow> 'a NodeToolCmd_scheme \<times> (int \<times> codepoints \<times> codepoints)" where
  "nodetool_cmd run s sub_command =
     (s\<lparr>nodetool_path := Some (normalized_path (nodetool_path s))\<rparr>,
      run (rendered_cmd s sub_command))"

subsection \<open>\<^verbatim>\<open>NodeToolCommand\<close>\<close>

definition append_extended :: "params \<Rightarrow> string \<Rightarrow> string" where
  "append_extended p c = (if p_extended p then c @ '' -e'' else c)"

definition append_keyspace :: "params \<Rightarrow> string \<Rightarrow> string" where
  "append_keyspace p c = (case p_keyspace p of None \<Rightarrow> c | Some k \<Rightarrow> c @ '' '' @ k)"

definition append_table :: "params \<Rightarrow> string \<Rightarrow> error + string" where
  "append_table p c =
     (case p_table p of
        None \<Rightarrow> Inr c
      | Some (RStr t) \<Rightarrow> Inr (c @ '' '' @ t)
      | Some (RList ts) \<Rightarrow>
          (case py_join '' '' ts of Inl e \<Rightarrow> Inl e | Inr j \<Rightarrow> Inr (c @ '' '' @ j))
      | Some ROther \<Rightarrow> Inr c)"

text \<open>\<^verbatim>\<open>NodeToolCommand.__init__\<close>: the sub-command fragment is stored in \<open>cmd\<close>.\<close>

definition NodeToolCommand_init :: "string \<Rightarrow> params \<Rightarrow> string \<Rightarrow> error + NodeToolCommand" where
  "NodeToolCommand_init fqdn p c =
     (let b = NodeToolCmd_init fqdn p in
      case append_table p (append_keyspace p (append_extended p c)) of
        Inl e \<Rightarrow> Inl e
      | Inr c' \<Rightarrow>
          Inr \<lparr> host = host b, port = port b, password = password b,
                password_file = password_file b, username = username b,
                nodetool_path = nodetool_path b,
                keyspace = p_keyspace p, table = p_table p, extended = p_extended p,
                cmd = c' \<rparr>)"

definition run_command ::
  "runner \<Rightarrow> NodeToolCommand \<Rightarrow> NodeToolCommand \<times> (int \<times> codepoints \<times> codepoints)" where
  "run_command run n = nodetool_cmd run n (cmd n)"

subsection \<open>\<^verbatim>\<open>main\<close>\<close>

text \<open>
  The result dictionary built from the runner's return code and captured streams (the
  statements of \<^verbatim>\<open>main\<close> after \<^verbatim>\<open>n.run_command()\<close>); it is what \<^verbatim>\<open>exit_json\<close>
  receives on both branches.
\<close>

definition report :: "int \<Rightarrow> codepoints \<Rightarrow> codepoints \<Rightarrow> result" where
  "report rc out err =
     (let out1 = str_strip out;
          err1 = str_strip err;
          r0 = (Map.empty :: result);
          r1 = (if out1 \<noteq> [] then r0(''stdout'' \<mapsto> VText out1) else r0);
          r2 = (if err1 \<noteq> [] then r1(''stderr'' \<mapsto> VText err1) else r1)
      in if rc = 0
         then r2(''changed'' \<mapsto> VBool True,
                 ''msg'' \<mapsto> VStr ''nodetool verify executed successfully'')
         else r2(''rc'' \<mapsto> VInt rc,
                 ''changed'' \<mapsto> VBool False,
                 ''msg'' \<mapsto> VStr ''nodetool verify did not execute successfully''))"

definition main :: "string \<Rightarrow> runner \<Rightarrow> params \<Rightarrow> error + result" where
  "main fqdn run p =
     (case NodeToolCommand_init fqdn p ''verify'' of
        Inl e \<Rightarrow> Inl e
      | Inr n \<Rightarrow> (case snd (run_command run n) of (rc, out, err) \<Rightarrow> Inr (report rc out err)))"

text \<open>The command line an invocation hands to the runner, when it gets that far.\<close>

definition command_line :: "string \<Rightarrow> params \<Rightarrow> error + string" where
  "command_line fqdn p =
     (case NodeToolCommand_init fqdn p ''verify'' of
        Inl e \<Rightarrow> Inl e
      | Inr n \<Rightarrow> Inr (rendered_cmd n (cmd n)))"

subsection \<open>Vocabulary for the properties\<close>

text \<open>
  A string occurs in a command when it is a contiguous part of it (\<^const>\<open>sublist\<close>,
  Python's \<^verbatim>\<open>t in s\<close>). A flag of a command line is one of its space-separated words:
  \<open>split_sp\<close> is \<^verbatim>\<open>s.split(' ')\<close>, and \<open>has_word w s\<close> says that \<open>w\<close> is one of
  the words of \<open>s\<close>. A split always has a first field, so the empty case of the inner
  match in \<open>split_sp\<close> never arises.
\<close>

fun split_sp :: "string \<Rightarrow> string list" where
  "split_sp [] = [[]]"
| "split_sp (c # cs) =
     (if c = CHR '' '' then [] # split_sp cs
      else (case split_sp cs of [] \<Rightarrow> [[c]] | w # ws \<Rightarrow> (c # w) # ws))"

definition has_word :: "string \<Rightarrow> string \<Rightarrow> bool" where
  "has_word w s = (w \<in> set (split_sp s))"

section \<open>Properties\<close>

subsection \<open>Words of a string\<close>

lemma split_sp_nonempty [simp]: "split_sp s \<noteq> []"
  by (induction s) (auto split: list.splits)

lemma split_sp_append_space:
  "split_sp (a @ CHR '' '' # b) = split_sp a @ split_sp b"
  by (induction a) (auto split: list.splits)

lemma split_sp_no_space: "CHR '' '' \<notin> set y \<Longrightarrow> split_sp y = [y]"
  by (induction y) auto

lemma split_sp_append_no_space:
  "CHR '' '' \<notin> set y \<Longrightarrow> split_sp (a @ y) = butlast (split_sp a) @ [last (split_sp a) @ y]"
proof (induction a)
  case Nil
  then show ?case by (simp add: split_sp_no_space)
next
  case (Cons c a)
  then show ?case
    by (cases "split_sp a") (auto simp: butlast_append split: list.splits)
qed

lemma has_word_space:
  "has_word w (a @ CHR '' '' # b) = (has_word w a \<or> has_word w b)"
  by (auto simp: has_word_def split_sp_append_space)

lemma has_word_no_space: "CHR '' '' \<notin> set y \<Longrightarrow> has_word w y = (w = y)"
  by (auto simp: has_word_def split_sp_no_space)

lemma has_word_append_no_space:
  assumes "CHR '' '' \<notin> set y" and "has_word w (a @ y)"
  shows "has_word w a \<or> suffix y w"
proof -
  from assms have "w \<in> set (butlast (split_sp a)) \<or> w = last (split_sp a) @ y"
    by (auto simp: has_word_def split_sp_append_no_space)
  then show ?thesis
    by (auto simp: has_word_def suffix_def dest: in_set_butlastD)
qed

subsection \<open>Rendering of integers\<close>

lemma digit_char_digit: "d < 10 \<Longrightarrow> digit_char d \<in> set ''0123456789''"
  unfolding digit_char_def by (rule nth_mem) simp

lemma str_nat_digits: "set (str_nat n) \<subseteq> set ''0123456789''"
proof (induction n rule: str_nat.induct)
  case (1 n)
  show ?case
  proof (cases "n < 10")
    case True
    then show ?thesis using digit_char_digit [of n] by (subst str_nat.simps) simp
  next
    case False
    then have "set (str_nat (n div 10)) \<subseteq> set ''0123456789''" using 1 by simp
    moreover have "digit_char (n mod 10) \<in> set ''0123456789''"
      by (rule digit_char_digit) simp
    ultimately show ?thesis using False by (subst str_nat.simps) simp
  qed
qed

lemma str_nat_no_space: "CHR '' '' \<notin> set (str_nat n)"
  using str_nat_digits [of n] by auto

lemma str_nat_no_minus: "CHR ''-'' \<notin> set (str_nat n)"
  using str_nat_digits [of n] by auto

lemma str_int_no_space: "CHR '' '' \<notin> set (str_int i)"
  by (simp add: str_int_def str_nat_no_space)

lemma str_int_not_flag: "str_int i \<noteq> CHR ''-'' # CHR ''-'' # w"
proof
  assume eq: "str_int i = CHR ''-'' # CHR ''-'' # w"
  show False
  proof (cases "i < 0")
    case True
    with eq have "str_nat (nat (- i)) = CHR ''-'' # w" by (simp add: str_int_def)
    then have "CHR ''-'' \<in> set (str_nat (nat (- i)))" by simp
    then show False by (simp add: str_nat_no_minus)
  next
    case False
    with eq have "str_nat (nat i) = CHR ''-'' # CHR ''-'' # w" by (simp add: str_int_def)
    then have "CHR ''-'' \<in> set (str_nat (nat i))" by simp
    then show False by (simp add: str_nat_no_minus)
  qed
qed

lemma str_int_7199: "str_int 7199 = ''7199''"
  by (simp add: str_int_def str_nat.simps digit_char_def)

subsection \<open>What \<^verbatim>\<open>main\<close> reports\<close>

lemma main_reports:
  assumes "NodeToolCommand_init fqdn p ''verify'' = Inr n"
  shows "main fqdn run p =
           Inr (case run (rendered_cmd n (cmd n)) of (rc, out, err) \<Rightarrow> report rc out err)"
  using assms by (simp add: main_def run_command_def nodetool_cmd_def split: prod.splits)

text \<open>
  C1. Whatever the runner returns, the reported dictionary has \<open>changed\<close> true and the
  success message exactly when the return code is 0; otherwise \<open>changed\<close> is false, the
  message is the failure message and \<open>rc\<close> holds the return code. The key \<open>rc\<close> is
  present only when the return code is not 0.
\<close>

theorem report_changed_msg_rc:
  "report rc out err ''changed'' = Some (VBool (rc = 0))
   \<and> report rc out err ''msg'' =
       Some (VStr (if rc = 0 then ''nodetool verify executed successfully''
                   else ''nodetool verify did not execute successfully''))
   \<and> report rc out err ''rc'' = (if rc = 0 then None else Some (VInt rc))"
  by (simp add: report_def Let_def)

subsection \<open>Trimming\<close>

lemma str_strip_decomp:
  "\<exists>pre suf. s = pre @ str_strip s @ suf \<and> (\<forall>c\<in>set pre. isspace c) \<and> (\<forall>c\<in>set suf. isspace c)"
proof -
  define t where "t = dropWhile isspace s"
  define pre where "pre = takeWhile isspace s"
  define suf where "suf = rev (takeWhile isspace (rev t))"
  have s: "s = pre @ t" by (simp add: pre_def t_def)
  have "str_strip s @ suf = rev (takeWhile isspace (rev t) @ dropWhile isspace (rev t))"
    by (simp only: str_strip_def suf_def t_def rev_append)
  also have "\<dots> = t"
    by (simp only: takeWhile_dropWhile_id rev_rev_ident)
  finally have t: "t = str_strip s @ suf" by simp
  have "\<forall>c\<in>set pre. isspace c"
    by (auto simp: pre_def dest: set_takeWhileD)
  moreover have "\<forall>c\<in>set suf. isspace c"
    by (auto simp: suf_def dest: set_takeWhileD)
  ultimately show ?thesis using s t by blast
qed

lemma str_strip_ends:
  assumes "str_strip s \<noteq> []"
  shows "\<not> isspace (hd (str_strip s)) \<and> \<not> isspace (last (str_strip s))"
proof -
  define t where "t = dropWhile isspace s"
  define r where "r = dropWhile isspace (rev t)"
  have strip: "str_strip s = rev r" by (simp add: str_strip_def r_def t_def)
  with assms have r: "r \<noteq> []" by simp
  then have rt: "rev t \<noteq> []" by (auto simp: r_def)
  then have t: "t \<noteq> []" by simp
  have "\<not> isspace (hd r)" using r unfolding r_def by (rule hd_dropWhile)
  then have last_ok: "\<not> isspace (last (str_strip s))" using r by (simp add: strip last_rev)
  have "last r = last (rev t)" using r unfolding r_def
    by (metis append_Nil2 last_appendR takeWhile_dropWhile_id)
  also have "\<dots> = hd t" using t by (simp add: last_rev)
  finally have "hd (str_strip s) = hd t" using r by (simp add: strip hd_rev)
  moreover have "\<not> isspace (hd t)" using t unfolding t_def by (rule hd_dropWhile)
  ultimately show ?thesis using last_ok by simp
qed

text \<open>
  C7. The reported \<open>stdout\<close> and \<open>stderr\<close> are the captured streams with the whitespace
  at both ends removed, and each key is absent when its stream is empty after trimming.
  Whitespace is what \<open>isspace\<close> says: every code point Python 3 strips, ASCII or not.
  Trimming removes only whitespace (a prefix and a suffix of whitespace characters), and
  a non-empty trimmed stream neither starts nor ends with a whitespace character.
\<close>

theorem report_streams_trimmed:
  "report rc out err ''stdout'' = (if str_strip out = [] then None else Some (VText (str_strip out)))
   \<and> report rc out err ''stderr'' = (if str_strip err = [] then None else Some (VText (str_strip err)))
   \<and> (\<forall>s. (\<exists>pre suf. s = pre @ str_strip s @ suf
              \<and> (\<forall>c\<in>set pre. isspace c) \<and> (\<forall>c\<in>set suf. isspace c))
          \<and> (str_strip s \<noteq> [] \<longrightarrow>
               \<not> isspace (hd (str_strip s)) \<and> \<not> isspace (last (str_strip s))))"
  using str_strip_decomp str_strip_ends by (simp add: report_def Let_def)

text \<open>
  The streams of the witness are a no-break space, \<^verbatim>\<open>OK\<close> and a line feed on standard
  output, and a next-line character and an ideographic space on standard error.
\<close>

theorem report_streams_trimmed_witness:
  "report 0 [0xA0, 79, 75, 10] [0x85, 0x3000] ''stdout'' = Some (VText [79, 75])
   \<and> report 0 [0xA0, 79, 75, 10] [0x85, 0x3000] ''stderr'' = None
   \<and> str_strip [0xA0, 79, 75, 10] \<noteq> []
   \<and> \<not> isspace (hd (str_strip [0xA0, 79, 75, 10]))
   \<and> \<not> isspace (last (str_strip [0xA0, 79, 75, 10]))"
  using report_streams_trimmed [of 0 "[0xA0, 79, 75, 10]" "[0x85, 0x3000]"]
  by (simp add: str_strip_def isspace_def)

subsection \<open>The rendered command\<close>

lemma rendered_cmd_no_username:
  assumes "username s = None"
  shows "rendered_cmd s sub =
           normalized_path (nodetool_path s) @ ''nodetool --host '' @ host s
             @ '' --port '' @ str_int (port s) @ '' '' @ sub"
  using assms by (simp add: rendered_cmd_def with_credentials_def)

lemma rendered_cmd_password_file:
  assumes "username s = Some u" and "password_file s = Some pf"
  shows "rendered_cmd s sub =
           normalized_path (nodetool_path s) @ ''nodetool --host '' @ host s
             @ '' --port '' @ str_int (port s)
             @ '' --username '' @ u @ '' --password-file '' @ pf @ '' '' @ sub"
  using assms by (simp add: rendered_cmd_def with_credentials_def)

lemma rendered_cmd_password:
  assumes "username s = Some u" and "password_file s = None"
  shows "rendered_cmd s sub =
           normalized_path (nodetool_path s) @ ''nodetool --host '' @ host s
             @ '' --port '' @ str_int (port s)
             @ '' --username '' @ u
             @ '' --password '' @ [CHR 0x27] @ format_opt (password s) @ [CHR 0x27]
             @ '' '' @ sub"
  using assms by (simp add: rendered_cmd_def with_credentials_def)

lemma prefix_with_credentials: "prefix c (with_credentials s c)"
  by (simp add: with_credentials_def Let_def split: option.splits)

lemma rendered_cmd_fields:
  assumes "host a = host b" and "port a = port b" and "password a = password b"
    and "password_file a = password_file b" and "username a = username b"
    and "nodetool_path a = nodetool_path b"
  shows "rendered_cmd a sub = rendered_cmd b sub"
  using assms
  by (simp add: rendered_cmd_def with_credentials_def Let_def split: option.splits)

lemma NodeToolCommand_init_rendered:
  assumes "NodeToolCommand_init fqdn p c = Inr n"
  shows "rendered_cmd n sub = rendered_cmd (NodeToolCmd_init fqdn p) sub"
proof (rule rendered_cmd_fields)
  from assms obtain c' where
    n: "n = \<lparr> host = host (NodeToolCmd_init fqdn p), port = port (NodeToolCmd_init fqdn p),
             password = password (NodeToolCmd_init fqdn p),
             password_file = password_file (NodeToolCmd_init fqdn p),
             username = username (NodeToolCmd_init fqdn p),
             nodetool_path = nodetool_path (NodeToolCmd_init fqdn p),
             keyspace = p_keyspace p, table = p_table p, extended = p_extended p,
             cmd = c' \<rparr>"
    by (auto simp: NodeToolCommand_init_def Let_def split: sum.splits)
  show "host n = host (NodeToolCmd_init fqdn p)" by (simp add: n)
  show "port n = port (NodeToolCmd_init fqdn p)" by (simp add: n)
  show "password n = password (NodeToolCmd_init fqdn p)" by (simp add: n)
  show "password_file n = password_file (NodeToolCmd_init fqdn p)" by (simp add: n)
  show "username n = username (NodeToolCmd_init fqdn p)" by (simp add: n)
  show "nodetool_path n = nodetool_path (NodeToolCmd_init fqdn p)" by (simp add: n)
qed

lemma command_line_rendered:
  assumes "command_line fqdn p = Inr c"
  shows "\<exists>sub. c = rendered_cmd (NodeToolCmd_init fqdn p) sub"
  using assms NodeToolCommand_init_rendered [of fqdn p "''verify''"]
  by (auto simp: command_line_def split: sum.splits)

lemma endswith_slash: "endswith d ''/'' = (d \<noteq> [] \<and> last d = CHR ''/'')"
  by (cases d rule: rev_cases) (auto simp: endswith_def suffix_def)

lemma normalized_path_cases:
  "normalized_path np =
     (case np of None \<Rightarrow> [] | Some d \<Rightarrow> if d = [] \<or> last d = CHR ''/'' then [] else d @ ''/'')"
  by (auto simp: normalized_path_def endswith_slash split: option.splits)

text \<open>Facts that evaluate the model on a concrete invocation.\<close>

lemmas eval_cmd = normalized_path_def endswith_slash str_int_7199 has_word_def sublist_Cons_right

lemmas eval_line = command_line_def NodeToolCommand_init_def NodeToolCmd_init_def
  append_table_def append_keyspace_def append_extended_def py_join_def
  rendered_cmd_def with_credentials_def format_opt_def

subsection \<open>The path of the binary\<close>

lemma rendered_cmd_unset_path:
  assumes "normalized_path (nodetool_path s) = []"
  shows "prefix ''nodetool --host '' (rendered_cmd s sub)"
proof -
  have "prefix (''nodetool --host '' @ host s @ '' --port '' @ str_int (port s))
          (with_credentials s (''nodetool --host '' @ host s @ '' --port '' @ str_int (port s)))"
    by (rule prefix_with_credentials)
  then have "prefix ''nodetool --host ''
          (with_credentials s (''nodetool --host '' @ host s @ '' --port '' @ str_int (port s)))"
    by (rule append_prefixD)
  then show ?thesis using assms by (simp add: rendered_cmd_def)
qed

text \<open>
  C5. When \<^verbatim>\<open>nodetool_path\<close> is unset or empty, the path prefix is empty and the command
  begins with \<^verbatim>\<open>nodetool\<close> followed by the host flag, for every sub-command and for the
  command line of every invocation that builds one.
\<close>

theorem unset_path_plain_binary:
  assumes "p_nodetool_path p = None \<or> p_nodetool_path p = Some ''''"
  shows "normalized_path (nodetool_path (NodeToolCmd_init fqdn p)) = ''''
         \<and> prefix ''nodetool --host '' (rendered_cmd (NodeToolCmd_init fqdn p) sub)
         \<and> (\<forall>c. command_line fqdn p = Inr c \<longrightarrow> prefix ''nodetool --host '' c)"
proof -
  have norm: "normalized_path (nodetool_path (NodeToolCmd_init fqdn p)) = ''''"
    using assms by (auto simp: NodeToolCmd_init_def normalized_path_def)
  then have "\<And>x. prefix ''nodetool --host '' (rendered_cmd (NodeToolCmd_init fqdn p) x)"
    by (rule rendered_cmd_unset_path)
  then show ?thesis using norm command_line_rendered [of fqdn p] by blast
qed

theorem unset_path_plain_binary_witness:
  "normalized_path (nodetool_path (NodeToolCmd_init ''node1''
     \<lparr>p_host = None, p_port = 7199, p_password = None,
      p_password_file = None, p_username = None, p_keyspace = Some ''ks'',
      p_table = None, p_extended = False, p_nodetool_path = None\<rparr>)) = ''''
   \<and> prefix ''nodetool --host '' (rendered_cmd (NodeToolCmd_init ''node1''
     \<lparr>p_host = None, p_port = 7199, p_password = None,
      p_password_file = None, p_username = None, p_keyspace = Some ''ks'',
      p_table = None, p_extended = False, p_nodetool_path = None\<rparr>) ''verify ks'')
   \<and> command_line ''node1''
     \<lparr>p_host = None, p_port = 7199, p_password = None,
      p_password_file = None, p_username = None, p_keyspace = Some ''ks'',
      p_table = None, p_extended = False, p_nodetool_path = None\<rparr>
     = Inr ''nodetool --host node1 --port 7199 verify ks''
   \<and> prefix ''nodetool --host '' ''nodetool --host node1 --port 7199 verify ks''"
  using unset_path_plain_binary
    [of "\<lparr>p_host = None, p_port = 7199, p_password = None,
      p_password_file = None, p_username = None, p_keyspace = Some ''ks'',
      p_table = None, p_extended = False, p_nodetool_path = None\<rparr>" "''node1''" "''verify ks''"]
  by (simp add: eval_line eval_cmd)

text \<open>
  C4. A path that does not end in a separator gets exactly one appended and prefixes the
  binary. A path that already ends in a separator takes the \<^verbatim>\<open>else\<close> branch and is
  replaced by the empty string: the binary is then run without the path.
\<close>

theorem trailing_separator_path_dropped:
  "command_line ''node1''
     \<lparr>p_host = Some ''db1'', p_port = 7199, p_password = None,
      p_password_file = None, p_username = None, p_keyspace = None,
      p_table = None, p_extended = False, p_nodetool_path = Some ''/usr/bin''\<rparr>
     = Inr ''/usr/bin/nodetool --host db1 --port 7199 verify''
   \<and> command_line ''node1''
     \<lparr>p_host = Some ''db1'', p_port = 7199, p_password = None,
      p_password_file = None, p_username = None, p_keyspace = None,
      p_table = None, p_extended = False, p_nodetool_path = Some ''/usr/bin/''\<rparr>
     = Inr ''nodetool --host db1 --port 7199 verify''"
  by (simp add: eval_line eval_cmd)

subsection \<open>Host and port\<close>

lemma sublist_host_port:
  "sublist (''--host '' @ host s @ '' --port '' @ str_int (port s)) (rendered_cmd s sub)"
proof -
  define c0 where "c0 = normalized_path (nodetool_path s) @ ''nodetool --host '' @ host s
          @ '' --port '' @ str_int (port s)"
  have "prefix c0 (with_credentials s c0)" by (rule prefix_with_credentials)
  then obtain rest where "with_credentials s c0 = c0 @ rest" by (auto simp: prefix_def)
  then have "rendered_cmd s sub =
      (normalized_path (nodetool_path s) @ ''nodetool '')
      @ (''--host '' @ host s @ '' --port '' @ str_int (port s))
      @ (rest @ '' '' @ sub)"
    by (simp add: rendered_cmd_def c0_def [symmetric]) (simp add: c0_def)
  then show ?thesis by (simp only: sublist_appendI)
qed

text \<open>
  C8, as amended. An unset host is replaced by the local fully-qualified name when the
  object is created, a given host is kept, and every command built contains
  \<^verbatim>\<open>--host <host> --port <port>\<close> with that host. The host is empty exactly when the
  host parameter is the empty string, or it is unset and the local name is empty.
\<close>

theorem host_fallback:
  "host (NodeToolCmd_init fqdn p) = (case p_host p of None \<Rightarrow> fqdn | Some h \<Rightarrow> h)
   \<and> sublist (''--host '' @ host (NodeToolCmd_init fqdn p) @ '' --port '' @ str_int (p_port p))
        (rendered_cmd (NodeToolCmd_init fqdn p) sub)
   \<and> (\<forall>c. command_line fqdn p = Inr c \<longrightarrow>
          sublist (''--host '' @ host (NodeToolCmd_init fqdn p) @ '' --port '' @ str_int (p_port p)) c)
   \<and> (host (NodeToolCmd_init fqdn p) = [])
       = (p_host p = Some [] \<or> (p_host p = None \<and> fqdn = []))"
proof -
  have port: "port (NodeToolCmd_init fqdn p) = p_port p" by (simp add: NodeToolCmd_init_def)
  have "\<And>x. sublist (''--host '' @ host (NodeToolCmd_init fqdn p) @ '' --port '' @ str_int (p_port p))
        (rendered_cmd (NodeToolCmd_init fqdn p) x)"
    using sublist_host_port [of "NodeToolCmd_init fqdn p"] by (simp only: port)
  moreover have "host (NodeToolCmd_init fqdn p) = (case p_host p of None \<Rightarrow> fqdn | Some h \<Rightarrow> h)"
    by (simp add: NodeToolCmd_init_def)
  moreover have "(host (NodeToolCmd_init fqdn p) = [])
       = (p_host p = Some [] \<or> (p_host p = None \<and> fqdn = []))"
    by (auto simp: NodeToolCmd_init_def split: option.splits)
  ultimately show ?thesis using command_line_rendered [of fqdn p] by blast
qed

theorem host_fallback_witness:
  "host (NodeToolCmd_init ''node1.example.org''
     \<lparr>p_host = None, p_port = 7199, p_password = None,
      p_password_file = None, p_username = None, p_keyspace = None,
      p_table = None, p_extended = False, p_nodetool_path = None\<rparr>) = ''node1.example.org''
   \<and> command_line ''node1.example.org''
     \<lparr>p_host = None, p_port = 7199, p_password = None,
      p_password_file = None, p_username = None, p_keyspace = None,
      p_table = None, p_extended = False, p_nodetool_path = None\<rparr>
     = Inr ''nodetool --host node1.example.org --port 7199 verify''
   \<and> sublist ''--host node1.example.org --port 7199''
        ''nodetool --host node1.example.org --port 7199 verify''"
  using host_fallback
    [of "''node1.example.org''" "\<lparr>p_host = None, p_port = 7199, p_password = None,
      p_password_file = None, p_username = None, p_keyspace = None,
      p_table = None, p_extended = False, p_nodetool_path = None\<rparr>" "''verify''"]
  by (simp add: eval_line eval_cmd)

text \<open>
  The claim C8 as first stated fails for a host given as the empty string: only an unset
  host is replaced, so the command is built with an empty host.
\<close>

theorem empty_host_counterexample:
  "host (NodeToolCmd_init ''node1.example.org''
     \<lparr>p_host = Some '''', p_port = 7199, p_password = None,
      p_password_file = None, p_username = None, p_keyspace = None,
      p_table = None, p_extended = False, p_nodetool_path = None\<rparr>) = ''''
   \<and> command_line ''node1.example.org''
     \<lparr>p_host = Some '''', p_port = 7199, p_password = None,
      p_password_file = None, p_username = None, p_keyspace = None,
      p_table = None, p_extended = False, p_nodetool_path = None\<rparr>
     = Inr ''nodetool --host  --port 7199 verify''"
  by (simp add: eval_line eval_cmd)

subsection \<open>The password flag\<close>

lemma sublist_password:
  assumes "username s = Some u" and "password_file s = None"
  shows "sublist (''--password '' @ [CHR 0x27] @ format_opt (password s) @ [CHR 0x27])
           (rendered_cmd s sub)"
proof -
  have "rendered_cmd s sub =
          (normalized_path (nodetool_path s) @ ''nodetool --host '' @ host s
            @ '' --port '' @ str_int (port s) @ '' --username '' @ u @ '' '')
          @ (''--password '' @ [CHR 0x27] @ format_opt (password s) @ [CHR 0x27])
          @ ('' '' @ sub)"
    using assms by (simp add: rendered_cmd_password)
  then show ?thesis by (simp only: sublist_appendI)
qed

text \<open>
  C6. With a username set, no password file and a password set, the command contains
  \<^verbatim>\<open>--password '<password>'\<close>: the password between two single quotes, character for
  character as given, right after the username.
\<close>

theorem password_quoted_verbatim:
  assumes "username s = Some u" and "password_file s = None" and "password s = Some pw"
  shows "sublist (''--password '' @ [CHR 0x27] @ pw @ [CHR 0x27]) (rendered_cmd s sub)
         \<and> rendered_cmd s sub =
             normalized_path (nodetool_path s) @ ''nodetool --host '' @ host s
               @ '' --port '' @ str_int (port s) @ '' --username '' @ u
               @ '' --password '' @ [CHR 0x27] @ pw @ [CHR 0x27] @ '' '' @ sub"
  using sublist_password [OF assms(1,2), of sub] rendered_cmd_password [OF assms(1,2), of sub]
    assms(3)
  by (simp add: format_opt_def)

theorem password_quoted_verbatim_witness:
  "sublist (''--password '' @ [CHR 0x27] @ ''it's'' @ [CHR 0x27])
     (rendered_cmd \<lparr>host = ''db1'', port = 7199, password = Some ''it's'',
        password_file = None, username = Some ''admin'', nodetool_path = None\<rparr> ''verify'')
   \<and> rendered_cmd \<lparr>host = ''db1'', port = 7199, password = Some ''it's'',
        password_file = None, username = Some ''admin'', nodetool_path = None\<rparr> ''verify''
     = ''nodetool --host db1 --port 7199 --username admin --password '' @ [CHR 0x27]
         @ ''it's'' @ [CHR 0x27] @ '' verify''"
  using password_quoted_verbatim
    [of "\<lparr>host = ''db1'', port = 7199, password = Some ''it's'',
        password_file = None, username = Some ''admin'', nodetool_path = None\<rparr>"
      "''admin''" "''it's''" "''verify''"]
  by (simp add: eval_cmd)

text \<open>
  C9. With a username set and neither password nor password file set, the command
  contains \<^verbatim>\<open>--password 'None'\<close>: the flag is not left out, and the unset value is
  rendered as the text \<^verbatim>\<open>None\<close>.
\<close>

theorem unset_password_rendered_as_None:
  assumes "username s = Some u" and "password_file s = None" and "password s = None"
  shows "sublist (''--password '' @ [CHR 0x27] @ ''None'' @ [CHR 0x27]) (rendered_cmd s sub)
         \<and> rendered_cmd s sub =
             normalized_path (nodetool_path s) @ ''nodetool --host '' @ host s
               @ '' --port '' @ str_int (port s) @ '' --username '' @ u
               @ '' --password '' @ [CHR 0x27] @ ''None'' @ [CHR 0x27] @ '' '' @ sub"
  using sublist_password [OF assms(1,2), of sub] rendered_cmd_password [OF assms(1,2), of sub]
    assms(3)
  by (simp add: format_opt_def)

theorem unset_password_rendered_as_None_witness:
  "sublist (''--password '' @ [CHR 0x27] @ ''None'' @ [CHR 0x27])
     (rendered_cmd \<lparr>host = ''db1'', port = 7199, password = None,
        password_file = None, username = Some ''admin'', nodetool_path = None\<rparr> ''verify'')
   \<and> rendered_cmd \<lparr>host = ''db1'', port = 7199, password = None,
        password_file = None, username = Some ''admin'', nodetool_path = None\<rparr> ''verify''
     = ''nodetool --host db1 --port 7199 --username admin --password '' @ [CHR 0x27]
         @ ''None'' @ [CHR 0x27] @ '' verify''"
  using unset_password_rendered_as_None
    [of "\<lparr>host = ''db1'', port = 7199, password = None,
        password_file = None, username = Some ''admin'', nodetool_path = None\<rparr>"
      "''admin''" "''verify''"]
  by (simp add: eval_cmd)

subsection \<open>Credential flags as words of the command\<close>

lemma has_word_binary:
  assumes "has_word w (normalized_path np @ ''nodetool'')"
  shows "(\<exists>d. np = Some d \<and> has_word w d) \<or> suffix ''nodetool'' w"
proof (cases "normalized_path np = []")
  case True
  with assms show ?thesis by (simp add: has_word_no_space)
next
  case False
  then obtain d where np: "np = Some d" and norm: "normalized_path np = d @ ''/''"
    by (auto simp: normalized_path_def split: option.splits if_splits)
  from assms norm have "has_word w (d @ ''/nodetool'')" by simp
  then have "has_word w d \<or> suffix ''/nodetool'' w"
    by (rule has_word_append_no_space [rotated]) simp
  then show ?thesis using np by (auto simp: suffix_def)
qed

lemma has_word_prefix_part:
  "has_word w (normalized_path np @ ''nodetool --host '' @ h @ '' --port '' @ str_int n) =
     (has_word w (normalized_path np @ ''nodetool'') \<or> w = ''--host'' \<or> has_word w h
      \<or> w = ''--port'' \<or> w = str_int n)"
proof -
  have "normalized_path np @ ''nodetool --host '' @ h @ '' --port '' @ str_int n =
        (normalized_path np @ ''nodetool'') @ CHR '' '' # ''--host'' @ CHR '' '' # h
          @ CHR '' '' # ''--port'' @ CHR '' '' # str_int n"
    by simp
  then show ?thesis
    by (simp only: has_word_space) (simp add: has_word_no_space str_int_no_space)
qed

lemma has_word_rendered_no_username:
  assumes "username s = None" and "has_word w (rendered_cmd s sub)"
  shows "has_word w (normalized_path (nodetool_path s) @ ''nodetool'') \<or> w = ''--host''
         \<or> has_word w (host s) \<or> w = ''--port'' \<or> w = str_int (port s) \<or> has_word w sub"
proof -
  have "rendered_cmd s sub =
          (normalized_path (nodetool_path s) @ ''nodetool --host '' @ host s
             @ '' --port '' @ str_int (port s)) @ CHR '' '' # sub"
    using assms(1) by (simp add: rendered_cmd_no_username)
  with assms(2) show ?thesis
    by (simp only: has_word_space has_word_prefix_part) blast
qed

lemma has_word_rendered_password_file:
  assumes "username s = Some u" and "password_file s = Some pf"
    and "has_word w (rendered_cmd s sub)"
  shows "has_word w (normalized_path (nodetool_path s) @ ''nodetool'') \<or> w = ''--host''
         \<or> has_word w (host s) \<or> w = ''--port'' \<or> w = str_int (port s)
         \<or> w = ''--username'' \<or> has_word w u \<or> w = ''--password-file'' \<or> has_word w pf
         \<or> has_word w sub"
proof -
  have "rendered_cmd s sub =
          (normalized_path (nodetool_path s) @ ''nodetool --host '' @ host s
             @ '' --port '' @ str_int (port s)) @ CHR '' '' # ''--username'' @ CHR '' '' # u
             @ CHR '' '' # ''--password-file'' @ CHR '' '' # pf @ CHR '' '' # sub"
    using assms(1,2) by (simp add: rendered_cmd_password_file)
  with assms(3) show ?thesis
    by (simp only: has_word_space has_word_prefix_part) (auto simp: has_word_no_space)
qed

lemma not_suffix_nodetool:
  "\<not> suffix ''nodetool'' ''--username''"
  "\<not> suffix ''nodetool'' ''--password''"
  "\<not> suffix ''nodetool'' ''--password-file''"
  by (simp_all add: suffix_to_prefix)

lemma flag_not_in_binary:
  assumes "w \<in> {''--username'', ''--password'', ''--password-file''}"
    and "\<forall>d. np = Some d \<longrightarrow> \<not> has_word w d"
  shows "\<not> has_word w (normalized_path np @ ''nodetool'')"
  using assms has_word_binary [of w np] not_suffix_nodetool by auto

lemma flag_not_port:
  assumes "w \<in> {''--username'', ''--password'', ''--password-file''}"
  shows "w \<noteq> str_int n"
  using assms str_int_not_flag [of n] by auto

text \<open>
  C2. With a username and a password file set, whatever the password is, the command
  contains \<^verbatim>\<open>--password-file\<close> followed by the password file value, and the builder
  writes no \<^verbatim>\<open>--password\<close> flag: what it appends for the credentials is exactly
  \<^verbatim>\<open>--username <username> --password-file <password_file>\<close>, the sub-command follows at
  once, and the command is the same for every password. The word \<^verbatim>\<open>--password\<close> is
  then in the command only if a parameter value itself has it.
\<close>

theorem password_file_takes_precedence:
  assumes "username s = Some u" and "password_file s = Some pf"
  shows "rendered_cmd s sub =
           normalized_path (nodetool_path s) @ ''nodetool --host '' @ host s
             @ '' --port '' @ str_int (port s)
             @ '' --username '' @ u @ '' --password-file '' @ pf @ '' '' @ sub
         \<and> with_credentials s c = c @ '' --username '' @ u @ '' --password-file '' @ pf
         \<and> sublist (''--password-file '' @ pf) (rendered_cmd s sub)
         \<and> rendered_cmd (s\<lparr>password := pw\<rparr>) sub = rendered_cmd s sub
         \<and> ((\<forall>d. nodetool_path s = Some d \<longrightarrow> \<not> has_word ''--password'' d)
              \<and> \<not> has_word ''--password'' (host s) \<and> \<not> has_word ''--password'' u
              \<and> \<not> has_word ''--password'' pf \<and> \<not> has_word ''--password'' sub
              \<longrightarrow> \<not> has_word ''--password'' (rendered_cmd s sub))"
proof (intro conjI impI)
  show eq: "rendered_cmd s sub =
          normalized_path (nodetool_path s) @ ''nodetool --host '' @ host s
            @ '' --port '' @ str_int (port s)
            @ '' --username '' @ u @ '' --password-file '' @ pf @ '' '' @ sub"
    using assms by (rule rendered_cmd_password_file)
  have "rendered_cmd s sub =
          (normalized_path (nodetool_path s) @ ''nodetool --host '' @ host s
            @ '' --port '' @ str_int (port s) @ '' --username '' @ u @ '' '')
          @ (''--password-file '' @ pf) @ ('' '' @ sub)"
    by (simp add: eq)
  then show "sublist (''--password-file '' @ pf) (rendered_cmd s sub)"
    by (simp only: sublist_appendI)
  show "rendered_cmd (s\<lparr>password := pw\<rparr>) sub = rendered_cmd s sub"
    using assms by (simp add: rendered_cmd_def with_credentials_def)
  show "with_credentials s c = c @ '' --username '' @ u @ '' --password-file '' @ pf"
    using assms by (simp add: with_credentials_def)
next
  assume clean: "(\<forall>d. nodetool_path s = Some d \<longrightarrow> \<not> has_word ''--password'' d)
              \<and> \<not> has_word ''--password'' (host s) \<and> \<not> has_word ''--password'' u
              \<and> \<not> has_word ''--password'' pf \<and> \<not> has_word ''--password'' sub"
  show "\<not> has_word ''--password'' (rendered_cmd s sub)"
  proof
    assume "has_word ''--password'' (rendered_cmd s sub)"
    from has_word_rendered_password_file [OF assms this]
    have "has_word ''--password'' (normalized_path (nodetool_path s) @ ''nodetool'')
          \<or> ''--password'' = str_int (port s)"
      using clean by auto
    moreover have "\<not> has_word ''--password'' (normalized_path (nodetool_path s) @ ''nodetool'')"
      using clean by (intro flag_not_in_binary) auto
    moreover have "''--password'' \<noteq> str_int (port s)" by (rule flag_not_port) simp
    ultimately show False by auto
  qed
qed

theorem password_file_takes_precedence_witness:
  "with_credentials \<lparr>host = ''db1'', port = 7199, password = Some ''s3cret'',
       password_file = Some ''/etc/pw'', username = Some ''admin'',
       nodetool_path = Some ''/opt/bin''\<rparr> ''nodetool''
     = ''nodetool --username admin --password-file /etc/pw''
   \<and> rendered_cmd \<lparr>host = ''db1'', port = 7199, password = Some ''s3cret'',
       password_file = Some ''/etc/pw'', username = Some ''admin'',
       nodetool_path = Some ''/opt/bin''\<rparr> ''verify ks''
     = ''/opt/bin/nodetool --host db1 --port 7199 --username admin --password-file /etc/pw verify ks''
   \<and> sublist ''--password-file /etc/pw''
        (rendered_cmd \<lparr>host = ''db1'', port = 7199, password = Some ''s3cret'',
           password_file = Some ''/etc/pw'', username = Some ''admin'',
           nodetool_path = Some ''/opt/bin''\<rparr> ''verify ks'')
   \<and> rendered_cmd \<lparr>host = ''db1'', port = 7199, password = None,
         password_file = Some ''/etc/pw'', username = Some ''admin'',
         nodetool_path = Some ''/opt/bin''\<rparr> ''verify ks''
       = rendered_cmd \<lparr>host = ''db1'', port = 7199, password = Some ''s3cret'',
           password_file = Some ''/etc/pw'', username = Some ''admin'',
           nodetool_path = Some ''/opt/bin''\<rparr> ''verify ks''
   \<and> \<not> has_word ''--password''
        (rendered_cmd \<lparr>host = ''db1'', port = 7199, password = Some ''s3cret'',
           password_file = Some ''/etc/pw'', username = Some ''admin'',
           nodetool_path = Some ''/opt/bin''\<rparr> ''verify ks'')"
  using password_file_takes_precedence
    [where s = "\<lparr>host = ''db1'', port = 7199, password = Some ''s3cret'',
           password_file = Some ''/etc/pw'', username = Some ''admin'',
           nodetool_path = Some ''/opt/bin''\<rparr>"
       and u = "''admin''" and pf = "''/etc/pw''" and sub = "''verify ks''" and pw = None
       and c = "''nodetool''"]
  by (simp add: eval_cmd)

text \<open>
  C10. Without a username the builder writes none of the flags \<^verbatim>\<open>--username\<close>,
  \<^verbatim>\<open>--password\<close>, \<^verbatim>\<open>--password-file\<close>, whether or not a password or a password file
  is set: the credential step leaves the command as it is, the command is the binary,
  host and port followed at once by the sub-command, and it is the same for every
  password and password file. Each of the three flags is then a word of the command
  only if a parameter value itself has it.
\<close>

theorem no_username_no_credentials:
  assumes "username s = None"
  shows "rendered_cmd s sub =
           normalized_path (nodetool_path s) @ ''nodetool --host '' @ host s
             @ '' --port '' @ str_int (port s) @ '' '' @ sub
         \<and> with_credentials s c = c
         \<and> rendered_cmd (s\<lparr>password := pw, password_file := pf\<rparr>) sub = rendered_cmd s sub
         \<and> (\<forall>w \<in> {''--username'', ''--password'', ''--password-file''}.
               (\<forall>d. nodetool_path s = Some d \<longrightarrow> \<not> has_word w d)
               \<and> \<not> has_word w (host s) \<and> \<not> has_word w sub
               \<longrightarrow> \<not> has_word w (rendered_cmd s sub))"
proof (intro conjI ballI impI)
  show "rendered_cmd s sub =
          normalized_path (nodetool_path s) @ ''nodetool --host '' @ host s
            @ '' --port '' @ str_int (port s) @ '' '' @ sub"
    using assms by (rule rendered_cmd_no_username)
  show "rendered_cmd (s\<lparr>password := pw, password_file := pf\<rparr>) sub = rendered_cmd s sub"
    using assms by (simp add: rendered_cmd_def with_credentials_def)
  show "with_credentials s c = c"
    using assms by (simp add: with_credentials_def)
next
  fix w
  assume w: "w \<in> {''--username'', ''--password'', ''--password-file''}"
    and clean: "(\<forall>d. nodetool_path s = Some d \<longrightarrow> \<not> has_word w d)
                \<and> \<not> has_word w (host s) \<and> \<not> has_word w sub"
  show "\<not> has_word w (rendered_cmd s sub)"
  proof
    assume "has_word w (rendered_cmd s sub)"
    from has_word_rendered_no_username [OF assms this]
    have "has_word w (normalized_path (nodetool_path s) @ ''nodetool'')
          \<or> w = ''--host'' \<or> w = ''--port'' \<or> w = str_int (port s)"
      using clean by blast
    moreover have "\<not> has_word w (normalized_path (nodetool_path s) @ ''nodetool'')"
      using w clean by (intro flag_not_in_binary) auto
    moreover have "w \<noteq> str_int (port s)" using w by (rule flag_not_port)
    ultimately show False using w by auto
  qed
qed

theorem no_username_no_credentials_witness:
  "with_credentials \<lparr>host = ''db1'', port = 7199, password = Some ''s3cret'',
       password_file = Some ''/etc/pw'', username = None,
       nodetool_path = None\<rparr> ''nodetool'' = ''nodetool''
   \<and> rendered_cmd \<lparr>host = ''db1'', port = 7199, password = Some ''s3cret'',
       password_file = Some ''/etc/pw'', username = None,
       nodetool_path = None\<rparr> ''verify ks''
     = ''nodetool --host db1 --port 7199 verify ks''
   \<and> rendered_cmd \<lparr>host = ''db1'', port = 7199, password = None,
         password_file = None, username = None, nodetool_path = None\<rparr> ''verify ks''
       = rendered_cmd \<lparr>host = ''db1'', port = 7199, password = Some ''s3cret'',
           password_file = Some ''/etc/pw'', username = None,
           nodetool_path = None\<rparr> ''verify ks''
   \<and> \<not> has_word ''--username''
        (rendered_cmd \<lparr>host = ''db1'', port = 7199, password = Some ''s3cret'',
           password_file = Some ''/etc/pw'', username = None,
           nodetool_path = None\<rparr> ''verify ks'')
   \<and> \<not> has_word ''--password''
        (rendered_cmd \<lparr>host = ''db1'', port = 7199, password = Some ''s3cret'',
           password_file = Some ''/etc/pw'', username = None,
           nodetool_path = None\<rparr> ''verify ks'')
   \<and> \<not> has_word ''--password-file''
        (rendered_cmd \<lparr>host = ''db1'', port = 7199, password = Some ''s3cret'',
           password_file = Some ''/etc/pw'', username = None,
           nodetool_path = None\<rparr> ''verify ks'')"
  using no_username_no_credentials
    [where s = "\<lparr>host = ''db1'', port = 7199, password = Some ''s3cret'',
           password_file = Some ''/etc/pw'', username = None,
           nodetool_path = None\<rparr>"
       and sub = "''verify ks''" and pw = None and pf = None and c = "''nodetool''"]
  by (simp add: eval_cmd)

subsection \<open>The table list\<close>

lemma all_strs_map_RStr: "all_strs (map RStr ts) = Some ts"
  by (induction ts) auto

lemma py_join_strs: "py_join sep (map RStr ts) = Inr (str_join sep ts)"
  by (simp add: py_join_def all_strs_map_RStr)

lemma split_sp_str_join:
  assumes "ts \<noteq> []" and "\<forall>t\<in>set ts. CHR '' '' \<notin> set t"
  shows "split_sp (str_join '' '' ts) = ts"
  using assms
proof (induction "'' ''" ts rule: str_join.induct)
  case 1
  then show ?case by simp
next
  case (2 x)
  then show ?case by (simp add: split_sp_no_space)
next
  case (3 x y ys)
  then have "split_sp (str_join '' '' (y # ys)) = y # ys" by simp
  moreover have "split_sp x = [x]" using 3 by (simp add: split_sp_no_space)
  moreover have "str_join '' '' (x # y # ys) = x @ CHR '' '' # str_join '' '' (y # ys)" by simp
  ultimately show ?case by (simp only: split_sp_append_space) simp
qed

lemma length_str_join:
  "length (str_join sep ts) = sum_list (map length ts) + length sep * (length ts - 1)"
  by (induction sep ts rule: str_join.induct) auto

text \<open>
  C3. When \<^verbatim>\<open>table\<close> is a list of names, the stored fragment is the command so far
  (with \<^verbatim>\<open>-e\<close> and the keyspace when given), one space, and the names joined by single
  spaces; for three names \<open>x\<close>, \<open>y\<close>, \<open>z\<close> the joined part is \<^verbatim>\<open>x y z\<close>. The names come
  back in the order given and with their repetitions when the joined part is split at
  the spaces, and the joined part has exactly one character more per separator than the
  names together: nothing is added before the first or after the last name.
\<close>

theorem table_list_joined:
  assumes "p_table p = Some (RList (map RStr ts))"
  shows "map_sum id cmd (NodeToolCommand_init fqdn p c)
           = Inr (append_keyspace p (append_extended p c) @ '' '' @ str_join '' '' ts)
         \<and> (\<forall>x y z. ts = [x, y, z] \<longrightarrow> str_join '' '' ts = x @ '' '' @ y @ '' '' @ z)
         \<and> (ts \<noteq> [] \<and> (\<forall>t\<in>set ts. CHR '' '' \<notin> set t) \<longrightarrow> split_sp (str_join '' '' ts) = ts)
         \<and> length (str_join '' '' ts) = sum_list (map length ts) + (length ts - 1)"
proof (intro conjI allI impI)
  have "append_table p (append_keyspace p (append_extended p c))
          = Inr (append_keyspace p (append_extended p c) @ '' '' @ str_join '' '' ts)"
    using assms by (simp add: append_table_def py_join_strs)
  then show "map_sum id cmd (NodeToolCommand_init fqdn p c)
           = Inr (append_keyspace p (append_extended p c) @ '' '' @ str_join '' '' ts)"
    by (simp add: NodeToolCommand_init_def Let_def)
next
  fix x y z assume "ts = [x, y, z]"
  then show "str_join '' '' ts = x @ '' '' @ y @ '' '' @ z" by simp
next
  assume "ts \<noteq> [] \<and> (\<forall>t\<in>set ts. CHR '' '' \<notin> set t)"
  then show "split_sp (str_join '' '' ts) = ts" by (simp add: split_sp_str_join)
next
  show "length (str_join '' '' ts) = sum_list (map length ts) + (length ts - 1)"
    by (simp add: length_str_join)
qed

theorem table_list_joined_witness:
  "map_sum id cmd (NodeToolCommand_init ''node1''
     \<lparr>p_host = None, p_port = 7199, p_password = None,
      p_password_file = None, p_username = None, p_keyspace = Some ''ks'',
      p_table = Some (RList [RStr ''t2'', RStr ''t1'', RStr ''t2'']), p_extended = True,
      p_nodetool_path = None\<rparr> ''verify'')
     = Inr ''verify -e ks t2 t1 t2''
   \<and> str_join '' '' [''t2'', ''t1'', ''t2''] = ''t2 t1 t2''
   \<and> split_sp (str_join '' '' [''t2'', ''t1'', ''t2'']) = [''t2'', ''t1'', ''t2'']
   \<and> length (str_join '' '' [''t2'', ''t1'', ''t2'']) = 8"
  using table_list_joined
    [of "\<lparr>p_host = None, p_port = 7199, p_password = None,
      p_password_file = None, p_username = None, p_keyspace = Some ''ks'',
      p_table = Some (RList [RStr ''t2'', RStr ''t1'', RStr ''t2'']), p_extended = True,
      p_nodetool_path = None\<rparr>" "[''t2'', ''t1'', ''t2'']" "''node1''" "''verify''"]
  by (simp add: append_keyspace_def append_extended_def)

end
